theory Spec2Isabelle
  imports Complex_Main
begin

section \<open>JavaScript numbers\<close>

text \<open>
  The hook \<^verbatim>\<open>useDragMoveEvent\<close> computes with JavaScript numbers and \<^verbatim>\<open>Date\<close> objects.
  A finite number is modelled as an exact rational (rounding of doubles and the sign of
  zero are outside the model); the three non-finite values are kept apart, because
  \<^verbatim>\<open>Number.isNaN\<close> tells NaN from the infinities.
\<close>

datatype jsnum = Fin rat | PosInf | NegInf | NaN

text \<open>A destructured array element: a number, or \<^verbatim>\<open>undefined\<close> past the end of the array.\<close>

datatype jsval = Undefined | Num jsnum

definition js_add :: "jsnum \<Rightarrow> jsnum \<Rightarrow> jsnum" where
  "js_add a b =
     (case a of
        NaN \<Rightarrow> NaN
      | Fin x \<Rightarrow> (case b of Fin y \<Rightarrow> Fin (x + y) | other \<Rightarrow> other)
      | PosInf \<Rightarrow> (case b of NaN \<Rightarrow> NaN | NegInf \<Rightarrow> NaN | other \<Rightarrow> PosInf)
      | NegInf \<Rightarrow> (case b of NaN \<Rightarrow> NaN | PosInf \<Rightarrow> NaN | other \<Rightarrow> NegInf))"

definition js_neg :: "jsnum \<Rightarrow> jsnum" where
  "js_neg a = (case a of Fin x \<Rightarrow> Fin (- x) | PosInf \<Rightarrow> NegInf | NegInf \<Rightarrow> PosInf | NaN \<Rightarrow> NaN)"

definition js_sub :: "jsnum \<Rightarrow> jsnum \<Rightarrow> jsnum" where
  "js_sub a b = js_add a (js_neg b)"

text \<open>Division of two finite numbers; a zero divisor gives an infinity, or NaN for 0 / 0.\<close>

definition js_div :: "rat \<Rightarrow> rat \<Rightarrow> jsnum" where
  "js_div x y =
     (if y = 0 then (if x = 0 then NaN else if 0 < x then PosInf else NegInf)
      else Fin (x / y))"

text \<open>\<^verbatim>\<open>Math.round\<close>: the nearest integer, a tie going towards plus infinity.\<close>

definition Math_round :: "jsnum \<Rightarrow> jsnum" where
  "Math_round a = (case a of Fin x \<Rightarrow> Fin (of_int \<lfloor>x + 1 / 2\<rfloor>) | other \<Rightarrow> other)"

definition Number_isNaN :: "jsval \<Rightarrow> bool" where
  "Number_isNaN v = (v = Num NaN)"

definition ToNumber :: "jsval \<Rightarrow> jsnum" where
  "ToNumber v = (case v of Undefined \<Rightarrow> NaN | Num n \<Rightarrow> n)"

text \<open>
  The argument conversion of the \<^verbatim>\<open>Date\<close> setters (MakeDay, MakeTime): a non-finite
  argument makes the result NaN, a finite one is truncated towards zero.
\<close>

definition trunc :: "rat \<Rightarrow> int" where
  "trunc x = (if x < 0 then \<lceil>x\<rceil> else \<lfloor>x\<rfloor>)"

definition finite_int :: "jsnum \<Rightarrow> int option" where
  "finite_int a = (case a of Fin x \<Rightarrow> Some (trunc x) | other \<Rightarrow> None)"

section \<open>Strings: split and Number\<close>

text \<open>
  \<^verbatim>\<open>dateAttr.split('-')\<close> on an ASCII string: the pieces between the separators, an
  empty piece where two separators meet or the string starts or ends with one.
\<close>

fun split_acc :: "char \<Rightarrow> string \<Rightarrow> string \<Rightarrow> string list" where
  "split_acc sep acc [] = [rev acc]"
| "split_acc sep acc (c # cs) =
     (if c = sep then rev acc # split_acc sep [] cs else split_acc sep (c # acc) cs)"

definition js_split :: "char \<Rightarrow> string \<Rightarrow> string list" where
  "js_split sep s = split_acc sep [] s"

definition isWhite :: "char \<Rightarrow> bool" where
  "isWhite c = (c \<in> set [CHR 0x09, CHR 0x0A, CHR 0x0B, CHR 0x0C, CHR 0x0D, CHR 0x20])"

definition trim :: "string \<Rightarrow> string" where
  "trim s = rev (dropWhile isWhite (rev (dropWhile isWhite s)))"

definition digit_of :: "nat \<Rightarrow> char \<Rightarrow> nat option" where
  "digit_of base c =
     (let n = (of_char c :: nat);
          v = (if 48 \<le> n \<and> n \<le> 57 then Some (n - 48)
               else if 97 \<le> n \<and> n \<le> 102 then Some (n - 87)
               else if 65 \<le> n \<and> n \<le> 70 then Some (n - 55)
               else None)
      in case v of None \<Rightarrow> None | Some d \<Rightarrow> if d < base then Some d else None)"

definition isDigit :: "char \<Rightarrow> bool" where
  "isDigit c = (digit_of 10 c \<noteq> None)"

fun digits_acc :: "nat \<Rightarrow> nat \<Rightarrow> string \<Rightarrow> nat option" where
  "digits_acc base acc [] = Some acc"
| "digits_acc base acc (c # cs) =
     (case digit_of base c of None \<Rightarrow> None | Some d \<Rightarrow> digits_acc base (base * acc + d) cs)"

text \<open>A non-empty run of digits of the given base, as a natural number.\<close>

definition digits_value :: "nat \<Rightarrow> string \<Rightarrow> nat option" where
  "digits_value base s = (if s = [] then None else digits_acc base 0 s)"

text \<open>\<^verbatim>\<open>0x\<close>, \<^verbatim>\<open>0o\<close> and \<^verbatim>\<open>0b\<close> literals (no sign allowed).\<close>

definition nonDecimal :: "string \<Rightarrow> nat option" where
  "nonDecimal s =
     (case s of
        c0 # c1 # r \<Rightarrow>
          if c0 \<noteq> CHR ''0'' then None
          else if c1 = CHR ''x'' \<or> c1 = CHR ''X'' then digits_value 16 r
          else if c1 = CHR ''o'' \<or> c1 = CHR ''O'' then digits_value 8 r
          else if c1 = CHR ''b'' \<or> c1 = CHR ''B'' then digits_value 2 r
          else None
      | other \<Rightarrow> None)"

text \<open>The exponent part \<^verbatim>\<open>e\<close>, \<^verbatim>\<open>e+\<close> or \<^verbatim>\<open>e-\<close> followed by decimal digits; absent means 0.\<close>

definition exponentPart :: "string \<Rightarrow> int option" where
  "exponentPart s =
     (case s of
        [] \<Rightarrow> Some 0
      | c # r \<Rightarrow>
          if c = CHR ''e'' \<or> c = CHR ''E'' then
            (case r of
               [] \<Rightarrow> None
             | d # r' \<Rightarrow>
                 if d = CHR ''-'' then map_option (\<lambda>n. - int n) (digits_value 10 r')
                 else if d = CHR ''+'' then map_option int (digits_value 10 r')
                 else map_option int (digits_value 10 r))
          else None)"

definition pow10 :: "int \<Rightarrow> rat" where
  "pow10 e = (if 0 \<le> e then 10 ^ nat e else 1 / 10 ^ nat (- e))"

definition unsignedDecimal :: "string \<Rightarrow> jsnum" where
  "unsignedDecimal s =
     (if s = ''Infinity'' then PosInf
      else
        let ip = takeWhile isDigit s;
            r1 = dropWhile isDigit s;
            (fp, r2) = (case r1 of
                          [] \<Rightarrow> ([], [])
                        | c # r \<Rightarrow>
                            if c = CHR ''.'' then (takeWhile isDigit r, dropWhile isDigit r)
                            else ([], r1))
        in if ip = [] \<and> fp = [] then NaN
           else case exponentPart r2 of
                  None \<Rightarrow> NaN
                | Some e \<Rightarrow>
                    (case digits_acc 10 0 (ip @ fp) of
                       None \<Rightarrow> NaN
                     | Some m \<Rightarrow> Fin (of_nat m * pow10 (e - int (length fp)))))"

text \<open>
  \<^verbatim>\<open>Number(value)\<close> on a string: white space is trimmed, the empty string is 0, and
  anything that is not a numeric literal is NaN.
\<close>

definition Number :: "string \<Rightarrow> jsnum" where
  "Number str =
     (case trim str of
        [] \<Rightarrow> Fin 0
      | c # r \<Rightarrow>
          (case nonDecimal (c # r) of
             Some n \<Rightarrow> Fin (of_nat n)
           | None \<Rightarrow>
               if c = CHR ''-'' then js_neg (unsignedDecimal r)
               else if c = CHR ''+'' then unsignedDecimal r
               else unsignedDecimal (c # r)))"

text \<open>Reading index \<open>i\<close> of an array: \<^verbatim>\<open>undefined\<close> when the array is shorter.\<close>

definition element :: "jsnum list \<Rightarrow> nat \<Rightarrow> jsval" where
  "element xs i = (if i < length xs then Num (xs ! i) else Undefined)"

section \<open>Dates\<close>

text \<open>
  A \<^verbatim>\<open>Date\<close> holds a time value: an integral number of milliseconds since the epoch, or
  NaN (an invalid date). The functions below are those of the ECMAScript specification.
  Local time is the time value shifted by a fixed offset \<open>tza\<close> (a zone without
  daylight-saving transitions); the offset is a parameter of every function that reads
  or writes local fields.
\<close>

datatype jsdate = InvalidDate | Date int

definition msPerDay :: int where "msPerDay = 86400000"
definition msPerHour :: int where "msPerHour = 3600000"
definition msPerMinute :: int where "msPerMinute = 60000"
definition msPerSecond :: int where "msPerSecond = 1000"

definition Day :: "int \<Rightarrow> int" where
  "Day t = t div msPerDay"

definition TimeWithinDay :: "int \<Rightarrow> int" where
  "TimeWithinDay t = t mod msPerDay"

definition HourFromTime :: "int \<Rightarrow> int" where
  "HourFromTime t = (t div msPerHour) mod 24"

definition MinFromTime :: "int \<Rightarrow> int" where
  "MinFromTime t = (t div msPerMinute) mod 60"

definition SecFromTime :: "int \<Rightarrow> int" where
  "SecFromTime t = (t div msPerSecond) mod 60"

definition msFromTime :: "int \<Rightarrow> int" where
  "msFromTime t = t mod msPerSecond"

definition isLeap :: "int \<Rightarrow> bool" where
  "isLeap y = (y mod 4 = 0 \<and> (y mod 100 \<noteq> 0 \<or> y mod 400 = 0))"


definition DayFromYear :: "int \<Rightarrow> int" where
  "DayFromYear y =
     365 * (y - 1970) + (y - 1969) div 4 - (y - 1901) div 100 + (y - 1601) div 400"

text \<open>
  The year of a day number: the largest \<open>y\<close> with \<open>DayFromYear y \<le> d\<close>. It is computed
  from an estimate with the mean year length (146097 days in 400 years), which is off by
  at most one year.
\<close>

definition YearFromDay :: "int \<Rightarrow> int" where
  "YearFromDay d =
     (let y = 1970 + (400 * d) div 146097
      in if d < DayFromYear y then y - 1
         else if DayFromYear (y + 1) \<le> d then y + 1
         else y)"

definition YearFromTime :: "int \<Rightarrow> int" where
  "YearFromTime t = YearFromDay (Day t)"

definition DayWithinYear :: "int \<Rightarrow> int" where
  "DayWithinYear t = Day t - DayFromYear (YearFromTime t)"

definition InLeapYear :: "int \<Rightarrow> int" where
  "InLeapYear t = (if isLeap (YearFromTime t) then 1 else 0)"

text \<open>The number of days of the year before month \<open>m\<close> (0 is January), \<open>l\<close> being 1 in a leap year.\<close>

definition monthStart :: "int \<Rightarrow> int \<Rightarrow> int" where
  "monthStart l m =
     (if m \<le> 0 then 0 else if m = 1 then 31 else if m = 2 then 59 + l
      else if m = 3 then 90 + l else if m = 4 then 120 + l else if m = 5 then 151 + l
      else if m = 6 then 181 + l else if m = 7 then 212 + l else if m = 8 then 243 + l
      else if m = 9 then 273 + l else if m = 10 then 304 + l else 334 + l)"

definition MonthFromTime :: "int \<Rightarrow> int" where
  "MonthFromTime t =
     (let d = DayWithinYear t; l = InLeapYear t
      in if d < 31 then 0 else if d < 59 + l then 1 else if d < 90 + l then 2
         else if d < 120 + l then 3 else if d < 151 + l then 4 else if d < 181 + l then 5
         else if d < 212 + l then 6 else if d < 243 + l then 7 else if d < 273 + l then 8
         else if d < 304 + l then 9 else if d < 334 + l then 10 else 11)"

definition DateFromTime :: "int \<Rightarrow> int" where
  "DateFromTime t = DayWithinYear t - monthStart (InLeapYear t) (MonthFromTime t) + 1"


text \<open>
  MakeDay: the month is carried into the year, and the day of the month is added to the
  day number of the first of that month; any non-finite argument gives NaN.
\<close>

definition MakeDay :: "jsnum \<Rightarrow> jsnum \<Rightarrow> jsnum \<Rightarrow> int option" where
  "MakeDay year month date =
     (case finite_int year of None \<Rightarrow> None | Some y \<Rightarrow>
       (case finite_int month of None \<Rightarrow> None | Some m \<Rightarrow>
         (case finite_int date of None \<Rightarrow> None | Some dt \<Rightarrow>
            let ym = y + m div 12; mn = m mod 12
            in Some (DayFromYear ym + monthStart (if isLeap ym then 1 else 0) mn + dt - 1))))"

definition MakeTime :: "jsnum \<Rightarrow> jsnum \<Rightarrow> jsnum \<Rightarrow> jsnum \<Rightarrow> int option" where
  "MakeTime hour minute sec ms =
     (case finite_int hour of None \<Rightarrow> None | Some h \<Rightarrow>
       (case finite_int minute of None \<Rightarrow> None | Some m \<Rightarrow>
         (case finite_int sec of None \<Rightarrow> None | Some s \<Rightarrow>
           (case finite_int ms of None \<Rightarrow> None | Some milli \<Rightarrow>
              Some (h * msPerHour + m * msPerMinute + s * msPerSecond + milli)))))"

definition MakeDate :: "int option \<Rightarrow> int option \<Rightarrow> int option" where
  "MakeDate day time =
     (case day of None \<Rightarrow> None | Some d \<Rightarrow>
       (case time of None \<Rightarrow> None | Some t \<Rightarrow> Some (d * msPerDay + t)))"

definition LocalTime :: "int \<Rightarrow> int \<Rightarrow> int" where
  "LocalTime tza t = t + tza"

definition UTC :: "int \<Rightarrow> int \<Rightarrow> int" where
  "UTC tza t = t - tza"

text \<open>TimeClip: a time value beyond 8.64e15 ms from the epoch is not a date.\<close>

definition TimeClip :: "int option \<Rightarrow> jsdate" where
  "TimeClip v =
     (case v of None \<Rightarrow> InvalidDate
      | Some t \<Rightarrow> if 8640000000000000 < \<bar>t\<bar> then InvalidDate else Date t)"

text \<open>
  \<^verbatim>\<open>new Date(number)\<close>: the range is checked on the number itself, which is then truncated.
\<close>

definition newDate :: "jsnum \<Rightarrow> jsdate" where
  "newDate n =
     (case n of
        Fin x \<Rightarrow> if 8640000000000000 < \<bar>x\<bar> then InvalidDate else Date (trunc x)
      | other \<Rightarrow> InvalidDate)"

definition getTime :: "jsdate \<Rightarrow> jsnum" where
  "getTime d = (case d of InvalidDate \<Rightarrow> NaN | Date t \<Rightarrow> Fin (of_int t))"

definition localField :: "(int \<Rightarrow> int) \<Rightarrow> int \<Rightarrow> jsdate \<Rightarrow> jsnum" where
  "localField f tza d =
     (case d of InvalidDate \<Rightarrow> NaN | Date t \<Rightarrow> Fin (of_int (f (LocalTime tza t))))"



definition getDate :: "int \<Rightarrow> jsdate \<Rightarrow> jsnum" where
  "getDate = localField DateFromTime"


definition getMinutes :: "int \<Rightarrow> jsdate \<Rightarrow> jsnum" where
  "getMinutes = localField MinFromTime"

text \<open>\<^verbatim>\<open>setMinutes(min)\<close>: an invalid date stays invalid.\<close>

definition setMinutes :: "int \<Rightarrow> jsnum \<Rightarrow> jsdate \<Rightarrow> jsdate" where
  "setMinutes tza minute d =
     (case d of
        InvalidDate \<Rightarrow> InvalidDate
      | Date t0 \<Rightarrow>
          let t = LocalTime tza t0;
              time = MakeTime (Fin (of_int (HourFromTime t))) minute
                       (Fin (of_int (SecFromTime t))) (Fin (of_int (msFromTime t)))
          in TimeClip (map_option (UTC tza) (MakeDate (Some (Day t)) time)))"

text \<open>\<^verbatim>\<open>setDate(date)\<close>: an invalid date stays invalid.\<close>

definition setDate :: "int \<Rightarrow> jsnum \<Rightarrow> jsdate \<Rightarrow> jsdate" where
  "setDate tza date d =
     (case d of
        InvalidDate \<Rightarrow> InvalidDate
      | Date t0 \<Rightarrow>
          let t = LocalTime tza t0;
              day = MakeDay (Fin (of_int (YearFromTime t))) (Fin (of_int (MonthFromTime t))) date
          in TimeClip (map_option (UTC tza) (MakeDate day (Some (TimeWithinDay t)))))"

text \<open>
  \<^verbatim>\<open>setFullYear(year, month, date)\<close>: on an invalid date the time within the day is
  taken as 0, so the call can make the date valid again.
\<close>

definition setFullYear :: "int \<Rightarrow> jsnum \<Rightarrow> jsnum \<Rightarrow> jsnum \<Rightarrow> jsdate \<Rightarrow> jsdate" where
  "setFullYear tza year month date d =
     (let t = (case d of InvalidDate \<Rightarrow> 0 | Date t0 \<Rightarrow> LocalTime tza t0);
          day = MakeDay year month date
      in TimeClip (map_option (UTC tza) (MakeDate day (Some (TimeWithinDay t)))))"

section \<open>The drag engine: useDragMoveEvent\<close>

text \<open>
  The arguments of the hook. The three options are optional and get their defaults with
  \<^verbatim>\<open>??\<close>; of the callback \<^verbatim>\<open>onDragEnd\<close> only its presence matters here, its calls are
  recorded in the state. The pixel scales, like the pointer coordinates, are finite
  numbers. \<open>localTZA\<close> is the offset of local time from UTC in milliseconds.
\<close>

record config =
  lockTimeOpt :: "bool option"
  pxPerDayOpt :: "rat option"
  pxPerMinuteOpt :: "rat option"
  hasOnDragEnd :: bool
  localTZA :: int

definition lockTime :: "config \<Rightarrow> bool" where
  "lockTime cfg = (case lockTimeOpt cfg of None \<Rightarrow> False | Some b \<Rightarrow> b)"

definition pxPerDay :: "config \<Rightarrow> rat" where
  "pxPerDay cfg = (case pxPerDayOpt cfg of None \<Rightarrow> 40 | Some p \<Rightarrow> p)"

definition pxPerMinute :: "config \<Rightarrow> rat" where
  "pxPerMinute cfg = (case pxPerMinuteOpt cfg of None \<Rightarrow> 1 | Some p \<Rightarrow> p)"

text \<open>
  The refs and the React state of one hook instance. \<open>None\<close> is \<^verbatim>\<open>null\<close>. \<open>calls\<close> lists
  the invocations of \<^verbatim>\<open>onDragEnd\<close>, oldest first. The handlers are taken to see the
  current preview: the effect that installs them runs again after every change of
  \<^verbatim>\<open>previewStart\<close> or \<^verbatim>\<open>previewEnd\<close>.
\<close>

record state =
  dragging :: bool
  startPos :: "(rat \<times> rat) option"
  originalStart :: "jsdate option"
  originalEnd :: "jsdate option"
  isDragging :: bool
  previewStart :: "jsdate option"
  previewEnd :: "jsdate option"
  calls :: "(jsdate \<times> jsdate) list"

definition init :: state where
  "init = \<lparr> dragging = False, startPos = None, originalStart = None, originalEnd = None,
            isDragging = False, previewStart = None, previewEnd = None, calls = [] \<rparr>"

text \<open>
  The effect on \<^verbatim>\<open>[event]\<close>. The event is given by the time values of its \<^verbatim>\<open>start\<close> and
  \<^verbatim>\<open>end\<close> (NaN for a value that is not a date), or is \<open>None\<close> for a null event;
  \<^verbatim>\<open>new Date(event.start)\<close> clips the time value.
\<close>

definition bindEvent :: "(jsnum \<times> jsnum) option \<Rightarrow> state \<Rightarrow> state" where
  "bindEvent ev s =
     (case ev of
        Some (st, en) \<Rightarrow>
          s\<lparr>originalStart := Some (newDate st), originalEnd := Some (newDate en),
            previewStart := None, previewEnd := None\<rparr>
      | None \<Rightarrow>
          s\<lparr>originalStart := None, originalEnd := None,
            previewStart := None, previewEnd := None\<rparr>)"

text \<open>
  The one way a listener can fail: \<^verbatim>\<open>onMove\<close> reads \<^verbatim>\<open>start.x\<close> of the anchor, and the
  non-null assertion \<^verbatim>\<open>startPosRef.current!\<close> checks nothing at run time.
\<close>

datatype error = TypeError

text \<open>The two offsets of \<^verbatim>\<open>onMove\<close>, from the deltas to the anchor.\<close>

definition dayOffset :: "config \<Rightarrow> rat \<Rightarrow> jsnum" where
  "dayOffset cfg deltaY = Math_round (js_div deltaY (pxPerDay cfg))"

definition minuteOffset :: "config \<Rightarrow> rat \<Rightarrow> jsnum" where
  "minuteOffset cfg deltaX =
     (if lockTime cfg then Fin 0 else Math_round (js_div deltaX (pxPerMinute cfg)))"

text \<open>
  The date part of \<^verbatim>\<open>onMove\<close>. \<open>dateAttr\<close> is what the lookup
  \<^verbatim>\<open>elementFromPoint(...).closest('[data-calendar-date]')?.getAttribute(...)\<close> gave at the
  pointer position, \<open>None\<close> when there is no such element. An empty attribute is falsy
  and takes the else branch.
\<close>

definition applyDate :: "int \<Rightarrow> string option \<Rightarrow> jsnum \<Rightarrow> jsdate \<Rightarrow> jsdate" where
  "applyDate tza dateAttr dOff newStart =
     (case dateAttr of
        Some (c # cs) \<Rightarrow>
          let parts = map Number (js_split (CHR ''-'') (c # cs));
              year = element parts 0; month = element parts 1; day = element parts 2
          in if \<not> Number_isNaN year \<and> \<not> Number_isNaN month \<and> \<not> Number_isNaN day
             then setFullYear tza (ToNumber year) (js_sub (ToNumber month) (Fin 1))
                    (ToNumber day) newStart
             else newStart
      | other \<Rightarrow> setDate tza (js_add (getDate tza newStart) dOff) newStart)"

definition onMove :: "config \<Rightarrow> rat \<Rightarrow> rat \<Rightarrow> string option \<Rightarrow> state \<Rightarrow> error + state" where
  "onMove cfg clientX clientY dateAttr s =
     (if \<not> dragging s then Inr s
      else case originalStart s of None \<Rightarrow> Inr s | Some os \<Rightarrow>
          (case originalEnd s of None \<Rightarrow> Inr s | Some oe \<Rightarrow>
            (case startPos s of None \<Rightarrow> Inl TypeError | Some (x0, y0) \<Rightarrow>
             let deltaX = clientX - x0;
                 deltaY = clientY - y0;
                 tza = localTZA cfg;
                 newStart0 = newDate (getTime os);
                 newStart1 = (if \<not> lockTime cfg
                              then setMinutes tza
                                     (js_add (getMinutes tza newStart0) (minuteOffset cfg deltaX))
                                     newStart0
                              else newStart0);
                 newStart = applyDate tza dateAttr (dayOffset cfg deltaY) newStart1;
                 duration = js_sub (getTime oe) (getTime os);
                 newEnd = newDate (js_add (getTime newStart) duration)
             in Inr (s\<lparr>previewStart := Some newStart, previewEnd := Some newEnd\<rparr>))))"

text \<open>
  \<^verbatim>\<open>handleMouseDown\<close> and \<^verbatim>\<open>handleTouchStart\<close>. The position is that of the mouse, or of
  \<^verbatim>\<open>e.touches[0]\<close>: a touch event lists at least the touch that caused it.
\<close>

definition handleMouseDown :: "rat \<Rightarrow> rat \<Rightarrow> state \<Rightarrow> state" where
  "handleMouseDown x y s =
     (if originalStart s = None then s
      else s\<lparr>dragging := True, startPos := Some (x, y), isDragging := True\<rparr>)"

definition handleTouchStart :: "rat \<Rightarrow> rat \<Rightarrow> state \<Rightarrow> state" where
  "handleTouchStart x y s =
     (if originalStart s = None then s
      else s\<lparr>dragging := True, startPos := Some (x, y), isDragging := True\<rparr>)"

definition handleMouseMove :: "config \<Rightarrow> rat \<Rightarrow> rat \<Rightarrow> string option \<Rightarrow> state \<Rightarrow> error + state" where
  "handleMouseMove cfg x y dateAttr s =
     (if \<not> dragging s then Inr s else onMove cfg x y dateAttr s)"

definition handleTouchMove :: "config \<Rightarrow> rat \<Rightarrow> rat \<Rightarrow> string option \<Rightarrow> state \<Rightarrow> error + state" where
  "handleTouchMove cfg x y dateAttr s =
     (if \<not> dragging s then Inr s else onMove cfg x y dateAttr s)"

definition endDrag :: "config \<Rightarrow> state \<Rightarrow> state" where
  "endDrag cfg s =
     (if \<not> dragging s then s
      else
        let s1 = s\<lparr>dragging := False, isDragging := False\<rparr>;
            s2 = (case previewStart s of None \<Rightarrow> s1 | Some finalStart \<Rightarrow>
                   (case previewEnd s of None \<Rightarrow> s1 | Some finalEnd \<Rightarrow>
                      if hasOnDragEnd cfg
                      then s1\<lparr>calls := calls s1 @ [(finalStart, finalEnd)]\<rparr>
                      else s1))
        in s2\<lparr>previewStart := None, previewEnd := None, startPos := None\<rparr>)"

definition handleMouseUp :: "config \<Rightarrow> state \<Rightarrow> state" where
  "handleMouseUp cfg s = endDrag cfg s"

definition handleTouchEnd :: "config \<Rightarrow> state \<Rightarrow> state" where
  "handleTouchEnd cfg s = endDrag cfg s"

definition handleTouchCancel :: "config \<Rightarrow> state \<Rightarrow> state" where
  "handleTouchCancel cfg s = endDrag cfg s"

text \<open>
  What can happen to a mounted hook whose node is attached: the event prop changes, or
  one of the seven listeners fires. A move carries the pointer position and the attribute
  found there.
\<close>

datatype event =
    Bind "(jsnum \<times> jsnum) option"
  | MouseDown rat rat
  | TouchStart rat rat
  | MouseMove rat rat "string option"
  | TouchMove rat rat "string option"
  | MouseUp
  | TouchEnd
  | TouchCancel

fun step :: "config \<Rightarrow> event \<Rightarrow> state \<Rightarrow> error + state" where
  "step cfg (Bind ev) s = Inr (bindEvent ev s)"
| "step cfg (MouseDown x y) s = Inr (handleMouseDown x y s)"
| "step cfg (TouchStart x y) s = Inr (handleTouchStart x y s)"
| "step cfg (MouseMove x y a) s = handleMouseMove cfg x y a s"
| "step cfg (TouchMove x y a) s = handleTouchMove cfg x y a s"
| "step cfg MouseUp s = Inr (handleMouseUp cfg s)"
| "step cfg TouchEnd s = Inr (handleTouchEnd cfg s)"
| "step cfg TouchCancel s = Inr (handleTouchCancel cfg s)"

text \<open>
  A run of the engine. A listener that throws is abandoned by the browser and the next
  event is handled in the state it left; \<^verbatim>\<open>onMove\<close> throws before it writes anything.
\<close>

fun run :: "config \<Rightarrow> event list \<Rightarrow> state \<Rightarrow> state" where
  "run cfg [] s = s"
| "run cfg (e # es) s =
     (case step cfg e s of Inl err \<Rightarrow> run cfg es s | Inr s' \<Rightarrow> run cfg es s')"


section \<open>Invariants and notions used in the statements\<close>

text \<open>
  A time value that \<^verbatim>\<open>Date\<close> can hold: every date the engine stores went through TimeClip.
\<close>

definition wf_date :: "jsdate \<Rightarrow> bool" where
  "wf_date d = (case d of InvalidDate \<Rightarrow> True | Date t \<Rightarrow> \<bar>t\<bar> \<le> 8640000000000000)"

definition wf_ref :: "jsdate option \<Rightarrow> bool" where
  "wf_ref r = (case r of None \<Rightarrow> True | Some d \<Rightarrow> wf_date d)"

text \<open>
  What holds in every state a mounted hook can be in: the anchor is set exactly while
  dragging, the React flag follows the ref, the preview is a pair and exists only while
  dragging, and the originals are a pair of clipped dates.
\<close>

definition engine_inv :: "state \<Rightarrow> bool" where
  "engine_inv s =
     (dragging s = (startPos s \<noteq> None) \<and> isDragging s = dragging s
      \<and> (previewStart s = None) = (previewEnd s = None)
      \<and> (dragging s \<or> previewStart s = None)
      \<and> (originalStart s = None) = (originalEnd s = None)
      \<and> wf_ref (originalStart s) \<and> wf_ref (originalEnd s))"


text \<open>The three kinds of listener events: press, move and release.\<close>

definition isPress :: "event \<Rightarrow> rat \<Rightarrow> rat \<Rightarrow> bool" where
  "isPress e x y = (e = MouseDown x y \<or> e = TouchStart x y)"


definition isRelease :: "event \<Rightarrow> bool" where
  "isRelease e = (e = MouseUp \<or> e = TouchEnd \<or> e = TouchCancel)"

text \<open>
  Example inputs: the default options with a callback in UTC, time-locked options nine
  hours east of UTC, and an event from 2024-06-10 09:00 to 10:00 UTC.
\<close>

definition exampleConfig :: config where
  "exampleConfig = \<lparr> lockTimeOpt = None, pxPerDayOpt = None, pxPerMinuteOpt = None,
                     hasOnDragEnd = True, localTZA = 0 \<rparr>"

definition lockedConfig :: config where
  "lockedConfig = \<lparr> lockTimeOpt = Some True, pxPerDayOpt = None, pxPerMinuteOpt = None,
                    hasOnDragEnd = True, localTZA = 32400000 \<rparr>"

definition exampleEvent :: "(jsnum \<times> jsnum) option" where
  "exampleEvent = Some (Fin 1718010000000, Fin 1718013600000)"

section \<open>Numbers and time arithmetic\<close>

lemma floor_rat_numeral_divide [simp]:
  "\<lfloor>numeral a / numeral b :: rat\<rfloor> = numeral a div numeral b"
  by (metis floor_divide_of_int_eq of_int_numeral)

lemma floor_rat_one_divide [simp]: "\<lfloor>1 / numeral b :: rat\<rfloor> = 1 div numeral b"
  by (metis floor_divide_of_int_eq of_int_1 of_int_numeral)

lemma floor_rat_minus_divide [simp]:
  "\<lfloor>- (numeral a / numeral b) :: rat\<rfloor> = - numeral a div numeral b"
  by (metis divide_minus_left floor_divide_of_int_eq of_int_neg_numeral of_int_numeral)

lemma trunc_of_int [simp]: "trunc (of_int n) = n"
  by (simp add: trunc_def)

lemma trunc_numeral [simp]: "trunc (numeral n) = numeral n" "trunc 0 = 0" "trunc 1 = 1"
  by (simp_all add: trunc_def)

lemma finite_int_Fin_of_int [simp]: "finite_int (Fin (of_int n)) = Some n"
  by (simp add: finite_int_def)

lemma finite_int_non_finite [simp]:
  "finite_int NaN = None" "finite_int PosInf = None" "finite_int NegInf = None"
  by (simp_all add: finite_int_def)

lemma js_add_Fin [simp]: "js_add (Fin x) (Fin y) = Fin (x + y)"
  by (simp add: js_add_def)

lemma js_add_NaN [simp]: "js_add NaN b = NaN"
  by (simp add: js_add_def)

lemma js_sub_Fin [simp]: "js_sub (Fin x) (Fin y) = Fin (x - y)"
  by (simp add: js_sub_def js_neg_def js_add_def)

lemma time_decomp: "Day t * msPerDay + TimeWithinDay t = t"
  by (simp add: Day_def TimeWithinDay_def)

text \<open>The hour, minute, second and millisecond fields add up to the time within the day.\<close>

lemma twd_fields:
  "HourFromTime t * msPerHour + MinFromTime t * msPerMinute + SecFromTime t * msPerSecond
     + msFromTime t = TimeWithinDay t"
proof -
  define h where "h = t div 3600000 mod 24"
  define m where "m = t div 60000 mod 60"
  define sc where "sc = t div 1000 mod 60"
  define r1 where "r1 = t mod 3600000"
  define r2 where "r2 = t mod 60000"
  define r3 where "r3 = t mod 1000"
  define r0 where "r0 = t mod 86400000"
  have a: "r0 = 3600000 * h + r1"
    unfolding r0_def h_def r1_def using zmod_zmult2_eq [of 24 t 3600000] by simp
  have b: "r1 = 60000 * m + r2"
    unfolding r1_def m_def r2_def using zmod_zmult2_eq [of 60 t 60000] by simp
  have c: "r2 = 1000 * sc + r3"
    unfolding r2_def sc_def r3_def using zmod_zmult2_eq [of 60 t 1000] by simp
  have "h * 3600000 + m * 60000 + sc * 1000 + r3 = r0"
    using a b c by linarith
  then show ?thesis
    unfolding HourFromTime_def MinFromTime_def SecFromTime_def msFromTime_def
      TimeWithinDay_def msPerDay_def msPerHour_def msPerMinute_def msPerSecond_def
      h_def m_def sc_def r3_def r0_def .
qed








section \<open>The Date setters as shifts of the time value\<close>

lemma MonthFromTime_range: "0 \<le> MonthFromTime t \<and> MonthFromTime t \<le> 11"
  by (simp add: MonthFromTime_def Let_def)

lemma MakeDay_int:
  "MakeDay (Fin (of_int y)) (Fin (of_int m)) (Fin (of_int d))
     = Some (DayFromYear (y + m div 12)
             + monthStart (if isLeap (y + m div 12) then 1 else 0) (m mod 12) + d - 1)"
  by (simp add: MakeDay_def Let_def)

text \<open>Writing back the fields of a day, with \<open>k\<close> added to the day of the month, moves \<open>k\<close> days.\<close>

lemma MakeDay_fields:
  "MakeDay (Fin (of_int (YearFromTime t))) (Fin (of_int (MonthFromTime t)))
     (Fin (of_int (DateFromTime t) + of_int k)) = Some (Day t + k)"
proof -
  have m: "MonthFromTime t div 12 = 0" "MonthFromTime t mod 12 = MonthFromTime t"
    using MonthFromTime_range [of t] by simp_all
  have d: "Fin (of_int (DateFromTime t) + of_int k) = Fin (of_int (DateFromTime t + k))"
    by simp
  have "DayFromYear (YearFromTime t) + monthStart (InLeapYear t) (MonthFromTime t)
          + (DateFromTime t + k) - 1 = Day t + k"
    by (simp add: DateFromTime_def DayWithinYear_def)
  then show ?thesis
    unfolding d MakeDay_int m by (simp add: InLeapYear_def)
qed


lemma setDate_shift:
  "setDate tza (js_add (getDate tza (Date t)) (Fin (of_int k))) (Date t)
     = TimeClip (Some (t + k * msPerDay))"
proof -
  have "(Day (t + tza) + k) * msPerDay + TimeWithinDay (t + tza) - tza = t + k * msPerDay"
    using time_decomp [of "t + tza"] by (simp add: algebra_simps)
  then show ?thesis
    by (simp add: setDate_def getDate_def localField_def LocalTime_def UTC_def MakeDay_fields
        MakeDate_def)
qed


lemma setMinutes_shift:
  "setMinutes tza (js_add (getMinutes tza (Date t)) (Fin (of_int m))) (Date t)
     = TimeClip (Some (t + m * msPerMinute))"
proof -
  let ?u = "t + tza"
  have a: "Fin (of_int (MinFromTime ?u) + of_int m) = Fin (of_int (MinFromTime ?u + m))"
    by simp
  have "Day ?u * msPerDay + (HourFromTime ?u * msPerHour + (MinFromTime ?u + m) * msPerMinute
          + SecFromTime ?u * msPerSecond + msFromTime ?u) - tza = t + m * msPerMinute"
    using time_decomp [of ?u] twd_fields [of ?u] by (simp add: algebra_simps)
  then show ?thesis
    unfolding setMinutes_def getMinutes_def localField_def LocalTime_def UTC_def
    by (simp add: a MakeTime_def MakeDate_def Let_def del: of_int_add)
qed



lemma setFullYear_eq:
  "setFullYear tza y m dt d =
     (case MakeDay y m dt of
        None \<Rightarrow> InvalidDate
      | Some dd \<Rightarrow>
          TimeClip (Some (dd * msPerDay
            + TimeWithinDay (case d of InvalidDate \<Rightarrow> 0 | Date t \<Rightarrow> t + tza) - tza)))"
  by (simp add: setFullYear_def MakeDate_def UTC_def LocalTime_def TimeClip_def
      split: option.splits jsdate.splits)




lemma wf_newDate: "wf_date (newDate n)"
  by (cases n) (auto simp: newDate_def wf_date_def trunc_def; linarith)+



section \<open>Invariants of the engine\<close>

lemma init_inv: "engine_inv init"
  by (simp add: engine_inv_def init_def wf_ref_def)

lemma bindEvent_inv: "engine_inv s \<Longrightarrow> engine_inv (bindEvent ev s)"
  by (auto simp: engine_inv_def bindEvent_def wf_ref_def wf_newDate split: option.splits)

lemma handleMouseDown_inv: "engine_inv s \<Longrightarrow> engine_inv (handleMouseDown x y s)"
  by (auto simp: engine_inv_def handleMouseDown_def)

lemma handleTouchStart_inv: "engine_inv s \<Longrightarrow> engine_inv (handleTouchStart x y s)"
  by (auto simp: engine_inv_def handleTouchStart_def)

lemma endDrag_inv: "engine_inv s \<Longrightarrow> engine_inv (endDrag cfg s)"
  by (auto simp: engine_inv_def endDrag_def Let_def split: option.splits)

lemma onMove_inv: "engine_inv s \<Longrightarrow> onMove cfg x y a s = Inr s' \<Longrightarrow> engine_inv s'"
  by (auto simp: engine_inv_def onMove_def Let_def split: option.splits if_splits)


lemma step_inv: "engine_inv s \<Longrightarrow> step cfg e s = Inr s' \<Longrightarrow> engine_inv s'"
  by (cases e)
     (auto simp: bindEvent_inv handleMouseDown_inv handleTouchStart_inv endDrag_inv
        handleMouseMove_def handleTouchMove_def handleMouseUp_def handleTouchEnd_def
        handleTouchCancel_def
        dest: onMove_inv split: if_splits)


lemma run_inv: "engine_inv s \<Longrightarrow> engine_inv (run cfg es s)"
proof (induction es arbitrary: s)
  case Nil
  then show ?case by simp
next
  case (Cons e es)
  then show ?case
    by (auto split: sum.splits dest: step_inv)
qed

lemma reachable_inv: "engine_inv (run cfg es init)"
  by (rule run_inv) (rule init_inv)


lemma run_append: "run cfg (es @ fs) s = run cfg fs (run cfg es s)"
  by (induction es arbitrary: s) (auto split: sum.splits)

lemma idle_cleared:
  "engine_inv s \<Longrightarrow> \<not> dragging s \<Longrightarrow>
   \<not> isDragging s \<and> previewStart s = None \<and> previewEnd s = None \<and> startPos s = None"
  by (cases "startPos s") (auto simp: engine_inv_def)


section \<open>Release\<close>

lemma step_release: "isRelease e \<Longrightarrow> step cfg e s = Inr (endDrag cfg s)"
  by (auto simp: isRelease_def handleMouseUp_def handleTouchEnd_def handleTouchCancel_def)



lemma endDrag_cleared:
  "dragging s \<Longrightarrow>
   \<not> dragging (endDrag cfg s) \<and> \<not> isDragging (endDrag cfg s)
   \<and> previewStart (endDrag cfg s) = None \<and> previewEnd (endDrag cfg s) = None
   \<and> startPos (endDrag cfg s) = None"
  by (auto simp: endDrag_def Let_def split: option.splits)

lemma endDrag_idle: "\<not> dragging s \<Longrightarrow> endDrag cfg s = s"
  by (simp add: endDrag_def)

lemma endDrag_originals:
  "originalStart (endDrag cfg s) = originalStart s \<and> originalEnd (endDrag cfg s) = originalEnd s"
  by (auto simp: endDrag_def Let_def split: option.splits)

lemma endDrag_reset:
  assumes "engine_inv s"
  shows "\<not> dragging (endDrag cfg s) \<and> \<not> isDragging (endDrag cfg s)
       \<and> previewStart (endDrag cfg s) = None \<and> previewEnd (endDrag cfg s) = None
       \<and> startPos (endDrag cfg s) = None"
proof (cases "dragging s")
  case True
  then show ?thesis by (rule endDrag_cleared)
next
  case False
  then show ?thesis
    using idle_cleared [OF assms] by (simp add: endDrag_idle)
qed

section \<open>Moves\<close>




section \<open>Time lock\<close>





section \<open>The calendar\<close>

















section \<open>The date part of a move\<close>






















section \<open>Example runs\<close>

lemma ex_cfg:
  "lockTime exampleConfig = False" "localTZA exampleConfig = 0"
  "hasOnDragEnd exampleConfig = True" "pxPerDay exampleConfig = 40"
  "pxPerMinute exampleConfig = 1"
  by (simp_all add: exampleConfig_def lockTime_def pxPerDay_def pxPerMinute_def)

lemma locked_cfg:
  "lockTime lockedConfig = True" "localTZA lockedConfig = 32400000"
  "hasOnDragEnd lockedConfig = True" "pxPerDay lockedConfig = 40"
  "pxPerMinute lockedConfig = 1"
  by (simp_all add: lockedConfig_def lockTime_def pxPerDay_def pxPerMinute_def)

lemma ex_pressed:
  "run cfg [Bind exampleEvent, MouseDown 100 100] init
     = \<lparr>dragging = True, startPos = Some (100, 100),
        originalStart = Some (Date 1718010000000), originalEnd = Some (Date 1718013600000),
        isDragging = True, previewStart = None, previewEnd = None, calls = []\<rparr>"
  by (simp add: exampleEvent_def init_def bindEvent_def handleMouseDown_def newDate_def)

lemma ex_offsets:
  "dayOffset exampleConfig 40 = Fin 1" "minuteOffset exampleConfig 0 = Fin 0"
  "dayOffset lockedConfig 40 = Fin 1"
  by (simp_all add: dayOffset_def minuteOffset_def ex_cfg locked_cfg js_div_def Math_round_def)

lemma ex_setMinutes:
  "setMinutes 0 (js_add (getMinutes 0 (Date 1718010000000)) (Fin 0)) (Date 1718010000000)
     = Date 1718010000000"
  using setMinutes_shift [of 0 1718010000000 0] by (simp add: TimeClip_def)

lemma ex_setDate:
  "setDate tza (js_add (getDate tza (Date 1718010000000)) (Fin 1)) (Date 1718010000000)
     = Date 1718096400000"
  using setDate_shift [of tza 1718010000000 1] by (simp add: TimeClip_def msPerDay_def)

text \<open>
  The first scenario of the specification: the anchor at (100, 100), a move to (100, 140),
  40 px per day. The preview is one day later, 2024-06-11 09:00 to 10:00.
\<close>

lemma ex_dragged:
  "run exampleConfig [Bind exampleEvent, MouseDown 100 100, MouseMove 100 140 None] init
     = \<lparr>dragging = True, startPos = Some (100, 100),
        originalStart = Some (Date 1718010000000), originalEnd = Some (Date 1718013600000),
        isDragging = True, previewStart = Some (Date 1718096400000),
        previewEnd = Some (Date 1718100000000), calls = []\<rparr>"
proof -
  have "run exampleConfig ([Bind exampleEvent, MouseDown 100 100] @ [MouseMove 100 140 None]) init
     = \<lparr>dragging = True, startPos = Some (100, 100),
        originalStart = Some (Date 1718010000000), originalEnd = Some (Date 1718013600000),
        isDragging = True, previewStart = Some (Date 1718096400000),
        previewEnd = Some (Date 1718100000000), calls = []\<rparr>"
    unfolding run_append ex_pressed
    by (simp add: handleMouseMove_def onMove_def Let_def ex_cfg ex_offsets applyDate_def
        getTime_def newDate_def ex_setMinutes ex_setDate)
  then show ?thesis by simp
qed


lemma ex_repressed:
  "run cfg [Bind exampleEvent, MouseDown 100 100, MouseDown 300 300] init
     = \<lparr>dragging = True, startPos = Some (300, 300),
        originalStart = Some (Date 1718010000000), originalEnd = Some (Date 1718013600000),
        isDragging = True, previewStart = None, previewEnd = None, calls = []\<rparr>"
  by (simp add: exampleEvent_def init_def bindEvent_def handleMouseDown_def newDate_def)

lemma ex_released:
  "run exampleConfig
     [Bind exampleEvent, MouseDown 100 100, MouseMove 100 140 None, MouseUp] init
     = \<lparr>dragging = False, startPos = None,
        originalStart = Some (Date 1718010000000), originalEnd = Some (Date 1718013600000),
        isDragging = False, previewStart = None, previewEnd = None,
        calls = [(Date 1718096400000, Date 1718100000000)]\<rparr>"
proof -
  have "run exampleConfig
          ([Bind exampleEvent, MouseDown 100 100, MouseMove 100 140 None] @ [MouseUp]) init
     = \<lparr>dragging = False, startPos = None,
        originalStart = Some (Date 1718010000000), originalEnd = Some (Date 1718013600000),
        isDragging = False, previewStart = None, previewEnd = None,
        calls = [(Date 1718096400000, Date 1718100000000)]\<rparr>"
    unfolding run_append ex_dragged
    by (simp add: handleMouseUp_def endDrag_def Let_def ex_cfg)
  then show ?thesis by simp
qed



lemma parse_short:
  "map Number (js_split (CHR ''-'') ''2024-03'') = [Fin 2024, Fin 3]"
  by (simp add: js_split_def Number_def trim_def isWhite_def nonDecimal_def unsignedDecimal_def
      isDigit_def digit_of_def exponentPart_def pow10_def digits_value_def Let_def)

lemma ex_short_attribute:
  "run exampleConfig [Bind exampleEvent, MouseDown 100 100, MouseMove 100 140 (Some ''2024-03'')] init
     = \<lparr>dragging = True, startPos = Some (100, 100),
        originalStart = Some (Date 1718010000000), originalEnd = Some (Date 1718013600000),
        isDragging = True, previewStart = Some InvalidDate,
        previewEnd = Some InvalidDate, calls = []\<rparr>"
proof -
  have e: "element (map Number (js_split (CHR ''-'') ''2024-03'')) 0 = Num (Fin 2024)"
    "element (map Number (js_split (CHR ''-'') ''2024-03'')) 1 = Num (Fin 3)"
    "element (map Number (js_split (CHR ''-'') ''2024-03'')) 2 = Undefined"
    unfolding parse_short by (simp_all add: element_def)
  have a: "applyDate 0 (Some ''2024-03'') d (Date 1718010000000) = InvalidDate" for d
    unfolding applyDate_def list.case option.case Let_def e
    by (simp add: Number_isNaN_def ToNumber_def setFullYear_eq MakeDay_def finite_int_def)
  have "run exampleConfig
          ([Bind exampleEvent, MouseDown 100 100] @ [MouseMove 100 140 (Some ''2024-03'')]) init
     = \<lparr>dragging = True, startPos = Some (100, 100),
        originalStart = Some (Date 1718010000000), originalEnd = Some (Date 1718013600000),
        isDragging = True, previewStart = Some InvalidDate,
        previewEnd = Some InvalidDate, calls = []\<rparr>"
    unfolding run_append ex_pressed
    by (simp add: handleMouseMove_def onMove_def Let_def ex_cfg ex_offsets a
        getTime_def newDate_def ex_setMinutes)
  then show ?thesis by simp
qed

section \<open>The claims\<close>

text \<open>
  The theorems below are about the states \<open>run cfg es init\<close> that a mounted hook reaches
  from its initial state by any sequence of events: re-bindings of the event prop and the
  seven listeners. Each listener is taken to run as a whole before the next event, with
  its state updates applied together.
\<close>
















text \<open>
  C8, as the code has it. After a release in any reachable state the dragging flags are
  cleared, the preview pair is null and the anchor is cleared; the originals are kept as
  they were. They belong to the bound event, not to the gesture: only a re-binding of the
  event changes them, and the next press needs them.
\<close>

theorem release_resets_session:
  assumes "s = run cfg es init" and "isRelease e"
  shows "\<exists>s'. step cfg e s = Inr s'
           \<and> \<not> dragging s' \<and> \<not> isDragging s'
           \<and> previewStart s' = None \<and> previewEnd s' = None \<and> startPos s' = None
           \<and> originalStart s' = originalStart s \<and> originalEnd s' = originalEnd s"
  using assms(1) step_release [OF assms(2), of cfg s] endDrag_originals [of cfg s]
    endDrag_reset [OF reachable_inv, of cfg cfg es]
  by simp

theorem release_resets_session_witness:
  "isRelease MouseUp
   \<and> (\<exists>s'. step exampleConfig MouseUp
              (run exampleConfig
                 [Bind exampleEvent, MouseDown 100 100, MouseMove 100 140 None] init) = Inr s'
          \<and> \<not> dragging s' \<and> \<not> isDragging s'
          \<and> previewStart s' = None \<and> previewEnd s' = None \<and> startPos s' = None
          \<and> originalStart s' = Some (Date 1718010000000)
          \<and> originalEnd s' = Some (Date 1718013600000))"
proof -
  let ?s = "run exampleConfig [Bind exampleEvent, MouseDown 100 100, MouseMove 100 140 None] init"
  have r: "isRelease MouseUp"
    by (simp add: isRelease_def)
  have h: "originalStart ?s = Some (Date 1718010000000)"
    "originalEnd ?s = Some (Date 1718013600000)"
    unfolding ex_dragged by simp_all
  show ?thesis
    using release_resets_session [OF refl r, of exampleConfig
        "[Bind exampleEvent, MouseDown 100 100, MouseMove 100 140 None]"] h r
    by (auto simp del: run.simps step.simps)
qed

text \<open>
  The claim C8 as stated fails: after the release that ends the example drag the session
  is idle, and both originals are still set.
\<close>

theorem release_keeps_originals_counterexample:
  "dragging (run exampleConfig
       [Bind exampleEvent, MouseDown 100 100, MouseMove 100 140 None] init)
   \<and> \<not> dragging (run exampleConfig
       [Bind exampleEvent, MouseDown 100 100, MouseMove 100 140 None, MouseUp] init)
   \<and> originalStart (run exampleConfig
       [Bind exampleEvent, MouseDown 100 100, MouseMove 100 140 None, MouseUp] init)
       = Some (Date 1718010000000)
   \<and> originalEnd (run exampleConfig
       [Bind exampleEvent, MouseDown 100 100, MouseMove 100 140 None, MouseUp] init)
       = Some (Date 1718013600000)"
  unfolding ex_dragged ex_released by simp

text \<open>
  C9, as the code has it. A press (mouse-down or touch-start) that arrives while a session
  is active leaves the originals, the preview, the flags and the record of calls as they
  are, and it overwrites the anchor with the new pointer position whenever an event is
  bound: there is one session, and it is re-anchored.
\<close>

theorem second_press_moves_anchor:
  assumes "s = run cfg es init" and "dragging s" and "isPress e x y"
  shows "\<exists>s'. step cfg e s = Inr s'
           \<and> dragging s' \<and> isDragging s'
           \<and> originalStart s' = originalStart s \<and> originalEnd s' = originalEnd s
           \<and> previewStart s' = previewStart s \<and> previewEnd s' = previewEnd s
           \<and> calls s' = calls s
           \<and> startPos s' = (if originalStart s = None then startPos s else Some (x, y))"
proof -
  have inv: "engine_inv s"
    using assms(1) reachable_inv by simp
  then have "isDragging s"
    using assms(2) by (simp add: engine_inv_def)
  then show ?thesis
    using assms(2,3)
    by (auto simp: isPress_def handleMouseDown_def handleTouchStart_def)
qed

theorem second_press_moves_anchor_witness:
  "dragging (run exampleConfig [Bind exampleEvent, MouseDown 100 100] init)
   \<and> isPress (TouchStart 300 300) 300 300
   \<and> (\<exists>s'. step exampleConfig (TouchStart 300 300)
              (run exampleConfig [Bind exampleEvent, MouseDown 100 100] init) = Inr s'
          \<and> dragging s'
          \<and> originalStart s' = Some (Date 1718010000000)
          \<and> originalEnd s' = Some (Date 1718013600000)
          \<and> startPos s' = Some (300, 300))"
proof -
  let ?s = "run exampleConfig [Bind exampleEvent, MouseDown 100 100] init"
  have h: "dragging ?s" "originalStart ?s = Some (Date 1718010000000)"
    "originalEnd ?s = Some (Date 1718013600000)"
    unfolding ex_pressed by simp_all
  have p: "isPress (TouchStart 300 300) 300 300"
    by (simp add: isPress_def)
  show ?thesis
    using second_press_moves_anchor [OF refl h(1) p] h p
    by (auto simp del: run.simps step.simps)
qed

text \<open>
  The claim C9 as stated fails: a second mouse-down at (300, 300) during the session that
  was anchored at (100, 100) changes the recorded anchor.
\<close>

theorem second_press_counterexample:
  "dragging (run exampleConfig [Bind exampleEvent, MouseDown 100 100] init)
   \<and> startPos (run exampleConfig [Bind exampleEvent, MouseDown 100 100] init)
       = Some (100, 100)
   \<and> startPos (run exampleConfig
        [Bind exampleEvent, MouseDown 100 100, MouseDown 300 300] init) = Some (300, 300)
   \<and> Some (300 :: rat, 300 :: rat) \<noteq> Some (100, 100)"
  unfolding ex_pressed ex_repressed by simp

text \<open>
  C10. The preview is a pair: in every reachable state, that is after every binding or
  re-binding of the event, every move and every release, \<open>previewStart\<close> and
  \<open>previewEnd\<close> are both null or both non-null.
\<close>

theorem preview_is_a_pair:
  "(previewStart (run cfg es init) = None) = (previewEnd (run cfg es init) = None)"
  using reachable_inv [of cfg es] by (simp add: engine_inv_def)

end
